theory Spec2Isabelle
  imports Main "HOL-Library.AList"
begin

unbundle bit_operations_syntax

section \<open>The assembler wrapper: script text and its two \<^verbatim>\<open>sed\<close> substitutions\<close>

definition newline :: char where
  "newline = CHR 0x0A"

definition tab :: char where
  "tab = CHR 0x09"

definition squote :: char where
  "squote = CHR 0x27"

definition backslash :: char where
  "backslash = CHR 0x5C"

text \<open>
  \<^verbatim>\<open>create_assembler()\<close> returns a fixed text. The Python literal is not a raw string:
  \<^verbatim>\<open>\\t\<close> and \<^verbatim>\<open>\\{\<close> denote a backslash followed by the letter, while \<^verbatim>\<open>\.\<close> and
  \<^verbatim>\<open>\s\<close> are unknown escapes and keep their backslash. The text below is the string after
  Python's escape processing, one list element per line, every line newline-terminated.
\<close>

definition create_assembler :: string where
  "create_assembler = concat (map (\<lambda>l. l @ [newline])
     [''#!/bin/bash'',
      ''set -ex'',
      '''',
      ''SOURCE=$3'',
      '''',
      ''# Add tab before .text and substitute space indentation for tabs to allow instrumentation'',
      ''sed '' @ [squote] @ ''s/^'' @ [backslash] @ ''.text$/'' @ [backslash] @ ''t.text/''
         @ [squote] @ '' -i $SOURCE'',
      ''sed '' @ [squote] @ ''s/^'' @ [backslash] @ ''s'' @ [backslash] @ ''{1,''
         @ [backslash] @ ''}/'' @ [backslash] @ ''t/'' @ [squote] @ '' -i $SOURCE'',
      '''',
      '''',
      ''AFL_AS_FORCE_INSTRUMENT=1 AFL_KEEP_ASSEMBLY=1 /src/afl/afl-gcc $@''])"










section \<open>The process's world: environment table, files, working directory, calls made\<close>

text \<open>
  A file is its content and its permission bits; a directory has no content of its own. The file
  system maps a path, held as the list of its components from the root, to a node. Symbolic links
  are not modelled.
\<close>

datatype node = File (content: string) (mode: int) | Dir

type_synonym filesystem = "(string list \<times> node) list"

type_synonym environment = "string \<rightharpoonup> string"

text \<open>
  The calls the script makes to the operating system, in the order it makes them. A call is
  recorded when it is made, whatever its outcome. \<open>Spawn\<close> carries the environment given to
  the child.
\<close>

datatype event =
    Spawn "string list" environment
  | CopyFile string string
  | WriteFile string
  | Chmod string int
  | ListDir string

record world =
  environ :: environment
  files :: filesystem
  cwd :: string
  umask :: int
  trace :: "event list"

datatype error =
    KeyError string
  | TypeError
  | CalledProcessError int "string list"
  | OSError "string list"
  | FileNotFoundError "string list"
  | IsADirectoryError "string list"
  | NotADirectoryError "string list"
  | SameFileError "string list"

type_synonym 'a action = "world \<Rightarrow> (error + 'a) \<times> world"

definition ok :: "'a \<Rightarrow> 'a action" where
  "ok x = (\<lambda>w. (Inr x, w))"

definition raise :: "error \<Rightarrow> 'a action" where
  "raise e = (\<lambda>w. (Inl e, w))"

text \<open>Statement sequencing: an exception ends the sequence, keeping the effects made so far.\<close>

definition and_then :: "'a action \<Rightarrow> ('a \<Rightarrow> 'b action) \<Rightarrow> 'b action" where
  "and_then m f = (\<lambda>w. case m w of (Inl e, w') \<Rightarrow> (Inl e, w') | (Inr x, w') \<Rightarrow> f x w')"

definition record_call :: "event \<Rightarrow> unit action" where
  "record_call e = (\<lambda>w. (Inr (), w\<lparr>trace := trace w @ [e]\<rparr>))"

subsection \<open>Paths\<close>

definition slash :: char where
  "slash = CHR ''/''"

primrec split_slash :: "string \<Rightarrow> string list" where
  "split_slash [] = [[]]"
| "split_slash (c # cs) =
     (if c = slash then [] # split_slash cs
      else (case split_slash cs of [] \<Rightarrow> [[c]] | f # fs \<Rightarrow> (c # f) # fs))"

definition components :: "string \<Rightarrow> string list" where
  "components p = filter (\<lambda>f. f \<noteq> []) (split_slash p)"

definition norm_step :: "string list \<Rightarrow> string \<Rightarrow> string list" where
  "norm_step acc c = (if c = ''.'' then acc else if c = ''..'' then butlast acc else acc @ [c])"

definition is_abs :: "string \<Rightarrow> bool" where
  "is_abs p \<longleftrightarrow> p \<noteq> [] \<and> hd p = slash"

text \<open>
  The file a path names for a process whose working directory is \<open>d\<close>: a relative path
  starts at \<open>d\<close>, empty components and \<^verbatim>\<open>.\<close> are skipped, \<^verbatim>\<open>..\<close> steps up.
\<close>

definition abspath :: "string \<Rightarrow> string \<Rightarrow> string list" where
  "abspath d p = foldl norm_step [] ((if is_abs p then [] else components d) @ components p)"

text \<open>\<^verbatim>\<open>os.path.join(a, b)\<close> of posixpath, for two arguments.\<close>

definition os_path_join :: "string \<Rightarrow> string \<Rightarrow> string" where
  "os_path_join a b =
     (if is_abs b then b
      else if a = [] \<or> last a = slash then a @ b
      else a @ [slash] @ b)"

text \<open>\<^verbatim>\<open>os.path.basename(p)\<close>: what follows the last slash.\<close>

definition basename :: "string \<Rightarrow> string" where
  "basename p = rev (takeWhile (\<lambda>c. c \<noteq> slash) (rev p))"

definition listdir_of :: "filesystem \<Rightarrow> string list \<Rightarrow> string list" where
  "listdir_of fs d = map (\<lambda>(k, n). last k) (filter (\<lambda>(k, n). k \<noteq> [] \<and> butlast k = d) fs)"


subsection \<open>Environment table\<close>

text \<open>\<^verbatim>\<open>os.environ[k] = v\<close>\<close>

definition environ_set :: "string \<Rightarrow> string \<Rightarrow> unit action" where
  "environ_set k v = (\<lambda>w. (Inr (), w\<lparr>environ := (environ w)(k \<mapsto> v)\<rparr>))"

text \<open>\<^verbatim>\<open>os.environ[k]\<close>: KeyError when the variable is not set.\<close>

definition environ_get :: "string \<Rightarrow> string action" where
  "environ_get k = (\<lambda>w. case environ w k of None \<Rightarrow> (Inl (KeyError k), w) | Some v \<Rightarrow> (Inr v, w))"

text \<open>\<^verbatim>\<open>os.getenv(k)\<close>: \<^verbatim>\<open>None\<close> when the variable is not set.\<close>

definition os_getenv :: "string \<Rightarrow> string option action" where
  "os_getenv k = (\<lambda>w. (Inr (environ w k), w))"

subsection \<open>Files\<close>

text \<open>
  \<^verbatim>\<open>with open(path, 'w') as f: f.write(data)\<close>: an existing file is truncated and keeps its mode;
  a new file needs its parent directory and gets mode \<^verbatim>\<open>0o666\<close> less the umask.
\<close>

definition open_write :: "string \<Rightarrow> string \<Rightarrow> unit action" where
  "open_write path data =
     and_then (record_call (WriteFile path)) (\<lambda>_ w.
       let k = abspath (cwd w) path in
       case map_of (files w) k of
         Some Dir \<Rightarrow> (Inl (IsADirectoryError k), w)
       | Some (File c m) \<Rightarrow> (Inr (), w\<lparr>files := AList.update k (File data m) (files w)\<rparr>)
       | None \<Rightarrow>
           (case map_of (files w) (butlast k) of
              Some Dir \<Rightarrow>
                (Inr (), w\<lparr>files := AList.update k (File data (438 AND NOT (umask w))) (files w)\<rparr>)
            | Some (File c m) \<Rightarrow> (Inl (NotADirectoryError k), w)
            | None \<Rightarrow> (Inl (FileNotFoundError k), w)))"

text \<open>\<^verbatim>\<open>os.chmod(path, m)\<close>\<close>

definition os_chmod :: "string \<Rightarrow> int \<Rightarrow> unit action" where
  "os_chmod path m =
     and_then (record_call (Chmod path m)) (\<lambda>_ w.
       let k = abspath (cwd w) path in
       case map_of (files w) k of
         None \<Rightarrow> (Inl (FileNotFoundError k), w)
       | Some Dir \<Rightarrow> (Inr (), w)
       | Some (File c m') \<Rightarrow> (Inr (), w\<lparr>files := AList.update k (File c m) (files w)\<rparr>))"

text \<open>
  \<^verbatim>\<open>shutil.copy(src, dst)\<close>: a destination that is a directory receives the file under the
  source's base name; source and destination must differ; the source is read, the destination
  written, then the source's permission bits are copied.
\<close>

definition shutil_copy :: "string \<Rightarrow> string \<Rightarrow> unit action" where
  "shutil_copy src dst =
     and_then (record_call (CopyFile src dst)) (\<lambda>_ w.
       let s = abspath (cwd w) src;
           d0 = abspath (cwd w) dst;
           d = (if map_of (files w) d0 = Some Dir then abspath (cwd w) (os_path_join dst (basename src))
                else d0)
       in if s = d \<and> map_of (files w) s \<noteq> None then (Inl (SameFileError s), w)
          else case map_of (files w) s of
            None \<Rightarrow> (Inl (FileNotFoundError s), w)
          | Some Dir \<Rightarrow> (Inl (IsADirectoryError s), w)
          | Some (File c m) \<Rightarrow>
              (case map_of (files w) d of
                 Some Dir \<Rightarrow> (Inl (IsADirectoryError d), w)
               | Some (File c' m') \<Rightarrow> (Inr (), w\<lparr>files := AList.update d (File c m) (files w)\<rparr>)
               | None \<Rightarrow>
                   (case map_of (files w) (butlast d) of
                      Some Dir \<Rightarrow> (Inr (), w\<lparr>files := AList.update d (File c m) (files w)\<rparr>)
                    | Some (File c' m') \<Rightarrow> (Inl (NotADirectoryError d), w)
                    | None \<Rightarrow> (Inl (FileNotFoundError d), w))))"

text \<open>\<^verbatim>\<open>os.listdir(path)\<close>\<close>

definition os_listdir :: "string \<Rightarrow> string list action" where
  "os_listdir path =
     and_then (record_call (ListDir path)) (\<lambda>_ w.
       let k = abspath (cwd w) path in
       case map_of (files w) k of
         None \<Rightarrow> (Inl (FileNotFoundError k), w)
       | Some (File c m) \<Rightarrow> (Inl (NotADirectoryError k), w)
       | Some Dir \<Rightarrow> (Inr (listdir_of (files w) k), w))"

subsection \<open>Child processes\<close>

text \<open>
  What running a command does is a parameter of the model: from the argument vector, the
  environment and working directory given to the child and the files it finds, the exit status
  and the files it leaves. \<open>None\<close> stands for a program that could not be started. A child
  cannot change the environment table or the working directory of the script.
\<close>

type_synonym os_exec =
  "string list \<Rightarrow> environment \<Rightarrow> string \<Rightarrow> filesystem \<Rightarrow> int option \<times> filesystem"

text \<open>Start the command, wait for it, return its exit status.\<close>

definition spawn :: "os_exec \<Rightarrow> string list \<Rightarrow> environment \<Rightarrow> int action" where
  "spawn exec args env =
     and_then (record_call (Spawn args env)) (\<lambda>_ w.
       case exec args env (cwd w) (files w) of
         (None, fs) \<Rightarrow> (Inl (OSError args), w)
       | (Some rc, fs) \<Rightarrow> (Inr rc, w\<lparr>files := fs\<rparr>))"

text \<open>\<^verbatim>\<open>subprocess.call(args)\<close>: the child inherits the environment; the status is returned.\<close>

definition subprocess_call :: "os_exec \<Rightarrow> string list \<Rightarrow> int action" where
  "subprocess_call exec args = (\<lambda>w. spawn exec args (environ w) w)"

text \<open>\<^verbatim>\<open>subprocess.check_call(args, env=env)\<close>: a non-zero status raises.\<close>

definition subprocess_check_call :: "os_exec \<Rightarrow> string list \<Rightarrow> environment \<Rightarrow> unit action" where
  "subprocess_check_call exec args env =
     and_then (spawn exec args env) (\<lambda>rc.
       if rc \<noteq> 0 then raise (CalledProcessError rc args) else ok ())"

text \<open>\<^verbatim>\<open>subprocess.run(args, check=True)\<close>: inherits the environment; a non-zero status raises.\<close>

definition subprocess_run_check :: "os_exec \<Rightarrow> string list \<Rightarrow> unit action" where
  "subprocess_run_check exec args =
     and_then (subprocess_call exec args) (\<lambda>rc.
       if rc \<noteq> 0 then raise (CalledProcessError rc args) else ok ())"

section \<open>The functions of \<^verbatim>\<open>fuzzer.py\<close>\<close>

text \<open>
  The module \<^verbatim>\<open>fuzzers.utils\<close> is imported by the script and is not part of the sources at hand.
  Its two constants are parameters of the model.
\<close>

record utils_constants =
  NO_SANITIZER_COMPAT_CFLAGS :: "string list"
  LIBCPLUSPLUS_FLAG :: string

text \<open>\<^verbatim>\<open>' '.join(xs)\<close>\<close>

fun join_space :: "string list \<Rightarrow> string" where
  "join_space [] = []"
| "join_space [x] = x"
| "join_space (x # y # ys) = x @ '' '' @ join_space (y # ys)"

definition build_uninstrumented_benchmark :: "os_exec \<Rightarrow> utils_constants \<Rightarrow> unit action" where
  "build_uninstrumented_benchmark exec utils =
     and_then (environ_set ''CC'' ''clang'') (\<lambda>_.
     and_then (environ_set ''CXX'' ''clang++'') (\<lambda>_.
     and_then (environ_set ''CFLAGS'' (join_space (NO_SANITIZER_COMPAT_CFLAGS utils))) (\<lambda>_.
     let cxxflags = [LIBCPLUSPLUS_FLAG utils] @ NO_SANITIZER_COMPAT_CFLAGS utils in
     and_then (environ_set ''CXXFLAGS'' (join_space cxxflags)) (\<lambda>_.
     and_then (environ_set ''FUZZER_LIB'' ''/libStandaloneFuzzTarget.a'') (\<lambda>_.
     let fuzzing_engine_path = ''/usr/lib/libFuzzingEngine.a'' in
     and_then (environ_get ''FUZZER_LIB'') (\<lambda>fuzzer_lib.
     and_then (shutil_copy fuzzer_lib fuzzing_engine_path) (\<lambda>_.
     and_then (\<lambda>w. (Inr (environ w), w)) (\<lambda>env.
     and_then (environ_get ''SRC'') (\<lambda>src.
     let build_script = os_path_join src ''build.sh'' in
     subprocess_check_call exec [''/bin/bash'', ''-ex'', build_script] env)))))))))"

definition assembler :: string where
  "assembler = ''/src/fuzzers/aflplusplus_ddisasm/assemble.sh''"

text \<open>
  \<^verbatim>\<open>target_binary + '.gtirb'\<close> is the first use of \<^verbatim>\<open>target_binary\<close>: with the variable unset it
  is \<^verbatim>\<open>None + str\<close>, a TypeError.
\<close>

definition instrument_binary :: "os_exec \<Rightarrow> unit action" where
  "instrument_binary exec =
     and_then (os_getenv ''FUZZ_TARGET'') (\<lambda>t.
       case t of
         None \<Rightarrow> raise TypeError
       | Some target_binary \<Rightarrow>
           let target_gtirb = target_binary @ ''.gtirb'';
               instrumented_binary = target_binary @ ''.dafl''
           in
           and_then (environ_get ''OUT'') (\<lambda>out.
           and_then (subprocess_run_check exec
             [''ddisasm'', out @ ''/'' @ target_binary, ''--ir'', target_gtirb]) (\<lambda>_.
           and_then (open_write assembler create_assembler) (\<lambda>_.
           and_then (os_chmod assembler 511) (\<lambda>_.
           and_then (environ_get ''OUT'') (\<lambda>out'.
           subprocess_run_check exec
             [''gtirb-pprinter'', target_gtirb, ''--syntax'', ''att'', ''--binary'',
              out' @ ''/'' @ instrumented_binary, ''--use-gcc'', assembler]))))))"

definition build :: "os_exec \<Rightarrow> utils_constants \<Rightarrow> unit action" where
  "build exec utils =
     and_then (build_uninstrumented_benchmark exec utils) (\<lambda>_.
     and_then (instrument_binary exec) (\<lambda>_.
     and_then (environ_get ''OUT'') (\<lambda>out.
     shutil_copy ''/src/afl/afl-fuzz'' out)))"

text \<open>
  Modelled from the spec: \<^verbatim>\<open>utils.create_seed_file_for_empty_corpus\<close>, defined in the module
  \<^verbatim>\<open>fuzzers.utils\<close>, which is missing from the sources. The specification says of it (4.5) that
  it "ensures the input-corpus directory contains at least one non-empty file, synthesizing a
  minimal placeholder seed if the directory is empty", and (7) that a filesystem failure is fatal.
  The name of the placeholder and its content are not given: they are parameters, the content
  being a first character and a rest, so non-empty as the specification requires.
\<close>

record seed_file =
  seed_name :: string
  seed_first :: char
  seed_rest :: string

definition seed_content :: "seed_file \<Rightarrow> string" where
  "seed_content seed = seed_first seed # seed_rest seed"

definition create_seed_file_for_empty_corpus :: "seed_file \<Rightarrow> string \<Rightarrow> unit action" where
  "create_seed_file_for_empty_corpus seed input_corpus =
     and_then (os_listdir input_corpus) (\<lambda>entries.
       if entries = [] then
         open_write (os_path_join input_corpus (seed_name seed)) (seed_content seed)
       else ok ())"

definition prepare_fuzz_environment :: "seed_file \<Rightarrow> string \<Rightarrow> unit action" where
  "prepare_fuzz_environment seed input_corpus =
     and_then (environ_set ''AFL_NO_UI'' ''1'') (\<lambda>_.
     and_then (environ_set ''AFL_SKIP_CPUFREQ'' ''1'') (\<lambda>_.
     and_then (environ_set ''AFL_NO_AFFINITY'' ''1'') (\<lambda>_.
     and_then (environ_set ''AFL_I_DONT_CARE_ABOUT_MISSING_CRASHES'' ''1'') (\<lambda>_.
     and_then (environ_set ''AFL_SKIP_CRASHES'' ''1'') (\<lambda>_.
     and_then (environ_set ''AFL_SHUFFLE_QUEUE'' ''1'') (\<lambda>_.
     create_seed_file_for_empty_corpus seed input_corpus))))))"

text \<open>The status returned by \<^verbatim>\<open>subprocess.call\<close> is dropped: \<^verbatim>\<open>fuzz\<close> returns \<^verbatim>\<open>None\<close>.\<close>

definition fuzz :: "os_exec \<Rightarrow> seed_file \<Rightarrow> string \<Rightarrow> string \<Rightarrow> string \<Rightarrow> unit action" where
  "fuzz exec seed input_corpus output_corpus target_binary =
     and_then (prepare_fuzz_environment seed input_corpus) (\<lambda>_.
     let instrumented_binary = target_binary @ ''.dafl'' in
     and_then (subprocess_call exec
       [''./afl-fuzz'', ''-i'', input_corpus, ''-o'', output_corpus, ''--'',
        instrumented_binary, ''@@'']) (\<lambda>_. ok ()))"

section \<open>Observations on the calls made\<close>

text \<open>The argument vectors of the commands started, in order.\<close>

primrec spawned :: "event list \<Rightarrow> string list list" where
  "spawned [] = []"
| "spawned (e # es) = (case e of Spawn args env \<Rightarrow> args # spawned es | _ \<Rightarrow> spawned es)"



text \<open>The six settings of \<^verbatim>\<open>prepare_fuzz_environment\<close> applied to an environment table.\<close>

definition afl_env :: "environment \<Rightarrow> environment" where
  "afl_env e = e(''AFL_NO_UI'' \<mapsto> ''1'', ''AFL_SKIP_CPUFREQ'' \<mapsto> ''1'', ''AFL_NO_AFFINITY'' \<mapsto> ''1'',
     ''AFL_I_DONT_CARE_ABOUT_MISSING_CRASHES'' \<mapsto> ''1'', ''AFL_SKIP_CRASHES'' \<mapsto> ''1'',
     ''AFL_SHUFFLE_QUEUE'' \<mapsto> ''1'')"

text \<open>Permission bits that let owner, group and others execute: \<^verbatim>\<open>0o111\<close> is contained.\<close>

definition executable_for_all :: "int \<Rightarrow> bool" where
  "executable_for_all m \<longleftrightarrow> m AND 73 = 73"

text \<open>The environment table after the settings of \<^verbatim>\<open>build_uninstrumented_benchmark\<close>.\<close>

definition build_env :: "utils_constants \<Rightarrow> environment \<Rightarrow> environment" where
  "build_env utils e = e(''CC'' \<mapsto> ''clang'', ''CXX'' \<mapsto> ''clang++'',
     ''CFLAGS'' \<mapsto> join_space (NO_SANITIZER_COMPAT_CFLAGS utils),
     ''CXXFLAGS'' \<mapsto> join_space ([LIBCPLUSPLUS_FLAG utils] @ NO_SANITIZER_COMPAT_CFLAGS utils),
     ''FUZZER_LIB'' \<mapsto> ''/libStandaloneFuzzTarget.a'')"

text \<open>The three command lines of the build, and the one of the fuzz run.\<close>

definition build_argv :: "string \<Rightarrow> string list" where
  "build_argv src = [''/bin/bash'', ''-ex'', os_path_join src ''build.sh'']"

definition ddisasm_argv :: "string \<Rightarrow> string \<Rightarrow> string list" where
  "ddisasm_argv out target = [''ddisasm'', out @ ''/'' @ target, ''--ir'', target @ ''.gtirb'']"

definition pprinter_argv :: "string \<Rightarrow> string \<Rightarrow> string list" where
  "pprinter_argv out target =
     [''gtirb-pprinter'', target @ ''.gtirb'', ''--syntax'', ''att'', ''--binary'',
      out @ ''/'' @ target @ ''.dafl'', ''--use-gcc'', assembler]"

definition fuzz_argv :: "string \<Rightarrow> string \<Rightarrow> string \<Rightarrow> string list" where
  "fuzz_argv input_corpus output_corpus target_binary =
     [''./afl-fuzz'', ''-i'', input_corpus, ''-o'', output_corpus, ''--'',
      target_binary @ ''.dafl'', ''@@'']"

text \<open>A file name proper: not empty, without slash, and neither \<^verbatim>\<open>.\<close> nor \<^verbatim>\<open>..\<close>.\<close>

definition plain_name :: "string \<Rightarrow> bool" where
  "plain_name n \<longleftrightarrow> n \<noteq> [] \<and> slash \<notin> set n \<and> n \<noteq> ''.'' \<and> n \<noteq> ''..''"

section \<open>What the external tools are taken to do\<close>



section \<open>Sample inputs\<close>


text \<open>
  Stand-ins for the external tools, each doing what section 6 of the specification says of its
  command line and nothing else: the build script leaves the binary \<^verbatim>\<open>$OUT/$FUZZ_TARGET\<close>; the
  disassembler reads its input and writes the IR file named after \<^verbatim>\<open>--ir\<close>; the re-assembler
  reads the IR, needs the wrapper to be an executable file, and writes the file named after
  \<^verbatim>\<open>--binary\<close>; the fuzzing engine ends with status 1. Relative paths are taken from the working
  directory. Any other command cannot be started.
\<close>

definition sample_exec :: os_exec where
  "sample_exec args env d fs =
     (if length args = 3 \<and> args ! 0 = ''/bin/bash'' \<and> args ! 1 = ''-ex'' then
        (case (env ''OUT'', env ''FUZZ_TARGET'', map_of fs (abspath d (args ! 2))) of
           (Some out, Some t, Some (File c m)) \<Rightarrow>
             (Some 0, AList.update (abspath d (out @ ''/'' @ t)) (File ''ELF'' 493) fs)
         | _ \<Rightarrow> (Some 1, fs))
      else if length args = 4 \<and> args ! 0 = ''ddisasm'' \<and> args ! 2 = ''--ir'' then
        (case map_of fs (abspath d (args ! 1)) of
           Some (File c m) \<Rightarrow> (Some 0, AList.update (abspath d (args ! 3)) (File (''GTIRB:'' @ c) 420) fs)
         | _ \<Rightarrow> (Some 1, fs))
      else if length args = 8 \<and> args ! 0 = ''gtirb-pprinter'' \<and> args ! 2 = ''--syntax''
          \<and> args ! 3 = ''att'' \<and> args ! 4 = ''--binary'' \<and> args ! 6 = ''--use-gcc'' then
        (case (map_of fs (abspath d (args ! 1)), map_of fs (abspath d (args ! 7))) of
           (Some (File c m), Some (File c' m')) \<Rightarrow>
             (if executable_for_all m'
              then (Some 0, AList.update (abspath d (args ! 5)) (File (''AFL:'' @ c) 493) fs)
              else (Some 1, fs))
         | _ \<Rightarrow> (Some 1, fs))
      else if length args = 8 \<and> args ! 0 = ''./afl-fuzz'' then (Some 1, fs)
      else (None, fs))"

definition sample_files :: filesystem where
  "sample_files =
     [([], Dir),
      ([''libStandaloneFuzzTarget.a''], File ''stub'' 420),
      ([''usr''], Dir),
      ([''usr'', ''lib''], Dir),
      ([''src''], Dir),
      ([''src'', ''build.sh''], File ''make'' 493),
      ([''src'', ''afl''], Dir),
      ([''src'', ''afl'', ''afl-fuzz''], File ''driver'' 493),
      ([''src'', ''fuzzers''], Dir),
      ([''src'', ''fuzzers'', ''aflplusplus_ddisasm''], Dir),
      ([''out''], Dir),
      ([''corpus''], Dir)]"

text \<open>A fresh build container: nothing built yet, working directory \<^verbatim>\<open>/src\<close>.\<close>

definition sample_world :: world where
  "sample_world =
     \<lparr>environ = [''FUZZ_TARGET'' \<mapsto> ''sample'', ''OUT'' \<mapsto> ''/out'', ''SRC'' \<mapsto> ''/src''],
      files = sample_files, cwd = ''/src'', umask = 18, trace = []\<rparr>"

text \<open>The same after the uninstrumented build: \<^verbatim>\<open>/out/sample\<close> exists.\<close>

definition built_world :: world where
  "built_world = sample_world\<lparr>files := sample_files @ [([''out'', ''sample''], File ''ELF'' 493)]\<rparr>"

definition sample_utils :: utils_constants where
  "sample_utils = \<lparr>NO_SANITIZER_COMPAT_CFLAGS = [''-O2'', ''-fno-omit-frame-pointer''],
     LIBCPLUSPLUS_FLAG = ''-stdlib=libc++''\<rparr>"

definition sample_seed :: seed_file where
  "sample_seed = \<lparr>seed_name = ''default_seed'', seed_first = CHR ''h'', seed_rest = ''i''\<rparr>"

text \<open>The same tools, with a re-assembler that always fails.\<close>

definition failing_pprinter_exec :: os_exec where
  "failing_pprinter_exec args env d fs =
     (if args \<noteq> [] \<and> hd args = ''gtirb-pprinter'' then (Some 1, fs) else sample_exec args env d fs)"

text \<open>A container whose \<^verbatim>\<open>SRC\<close> points to a directory without build script.\<close>

definition nosrc_world :: world where
  "nosrc_world = sample_world\<lparr>environ := (environ sample_world)(''SRC'' \<mapsto> ''/missing'')\<rparr>"

section \<open>The rewrite of the assembly text\<close>


















section \<open>Running commands\<close>

lemmas action_defs = ok_def raise_def and_then_def record_call_def environ_set_def
  environ_get_def os_getenv_def

lemma pair_of_fst: "fst p = a \<Longrightarrow> p = (a, snd p)"
  by (cases p) simp

lemma spawned_append: "spawned (a @ b) = spawned a @ spawned b"
  by (induction a) (auto split: event.splits)


lemma spawn_status:
  "exec args env (cwd w) (files w) = (Some rc, fs) \<Longrightarrow>
   spawn exec args env w = (Inr rc, w\<lparr>trace := trace w @ [Spawn args env], files := fs\<rparr>)"
  by (simp add: spawn_def action_defs)

lemma spawn_not_started:
  "exec args env (cwd w) (files w) = (None, fs) \<Longrightarrow>
   spawn exec args env w = (Inl (OSError args), w\<lparr>trace := trace w @ [Spawn args env]\<rparr>)"
  by (simp add: spawn_def action_defs)

lemma run_check_nonzero:
  "exec args (environ w) (cwd w) (files w) = (Some rc, fs) \<Longrightarrow> rc \<noteq> 0 \<Longrightarrow>
   subprocess_run_check exec args w =
     (Inl (CalledProcessError rc args), w\<lparr>trace := trace w @ [Spawn args (environ w)], files := fs\<rparr>)"
  by (simp add: subprocess_run_check_def subprocess_call_def spawn_status action_defs)

lemma run_check_zero:
  "exec args (environ w) (cwd w) (files w) = (Some 0, fs) \<Longrightarrow>
   subprocess_run_check exec args w =
     (Inr (), w\<lparr>trace := trace w @ [Spawn args (environ w)], files := fs\<rparr>)"
  by (simp add: subprocess_run_check_def subprocess_call_def spawn_status action_defs)

lemma run_check_not_started:
  "exec args (environ w) (cwd w) (files w) = (None, fs) \<Longrightarrow>
   subprocess_run_check exec args w =
     (Inl (OSError args), w\<lparr>trace := trace w @ [Spawn args (environ w)]\<rparr>)"
  by (simp add: subprocess_run_check_def subprocess_call_def spawn_not_started action_defs)

lemma run_check_success:
  assumes "subprocess_run_check exec args w = (Inr (), w')"
  shows "\<exists>fs. exec args (environ w) (cwd w) (files w) = (Some 0, fs)
    \<and> w' = w\<lparr>trace := trace w @ [Spawn args (environ w)], files := fs\<rparr>"
proof (cases "exec args (environ w) (cwd w) (files w)")
  case (Pair st fs)
  show ?thesis
  proof (cases st)
    case None
    with Pair assms show ?thesis by (simp add: run_check_not_started)
  next
    case (Some rc)
    with Pair assms show ?thesis
      by (cases "rc = 0") (auto simp: run_check_nonzero run_check_zero)
  qed
qed

lemma check_call_nonzero:
  "exec args env (cwd w) (files w) = (Some rc, fs) \<Longrightarrow> rc \<noteq> 0 \<Longrightarrow>
   subprocess_check_call exec args env w =
     (Inl (CalledProcessError rc args), w\<lparr>trace := trace w @ [Spawn args env], files := fs\<rparr>)"
  by (simp add: subprocess_check_call_def spawn_status action_defs)

lemma sample_exec_fuzz: "sample_exec (fuzz_argv i out t) env d fs = (Some 1, fs)"
  by (simp add: sample_exec_def fuzz_argv_def)

lemma failing_pprinter_exec_run:
  "failing_pprinter_exec (pprinter_argv out t) env d fs = (Some 1, fs)"
  by (simp add: failing_pprinter_exec_def pprinter_argv_def)


section \<open>The instrumentation stage when the disassembler fails\<close>

text \<open>The steps of \<^verbatim>\<open>instrument_binary\<close> once both variables are read.\<close>

lemma instrument_binary_unfold:
  assumes "environ w ''FUZZ_TARGET'' = Some t" and "environ w ''OUT'' = Some out"
  shows "instrument_binary exec w =
    and_then (subprocess_run_check exec (ddisasm_argv out t)) (\<lambda>_.
    and_then (open_write assembler create_assembler) (\<lambda>_.
    and_then (os_chmod assembler 511) (\<lambda>_.
    and_then (environ_get ''OUT'') (\<lambda>out'.
    subprocess_run_check exec (pprinter_argv out' t))))) w"
  using assms
  by (simp add: instrument_binary_def action_defs ddisasm_argv_def pprinter_argv_def Let_def)

text \<open>
  C2. When the disassembler is run by \<^verbatim>\<open>instrument_binary\<close> and ends with a non-zero status,
  the stage raises \<^verbatim>\<open>CalledProcessError\<close> there: the only command it has started is
  \<^verbatim>\<open>ddisasm\<close> (the re-assembler is never started), and the files are exactly those the
  disassembler left, so the stage itself has written nothing, the \<^verbatim>\<open>.dafl\<close> file included.
\<close>

theorem instrument_binary_disassembler_failure:
  assumes "environ w ''FUZZ_TARGET'' = Some t" and "environ w ''OUT'' = Some out"
    and "exec (ddisasm_argv out t) (environ w) (cwd w) (files w) = (Some rc, fs)"
    and "rc \<noteq> 0"
  shows "instrument_binary exec w =
      (Inl (CalledProcessError rc (ddisasm_argv out t)),
       w\<lparr>trace := trace w @ [Spawn (ddisasm_argv out t) (environ w)], files := fs\<rparr>)
    \<and> spawned (trace (snd (instrument_binary exec w))) = spawned (trace w) @ [ddisasm_argv out t]
    \<and> files (snd (instrument_binary exec w)) = fs"
  using assms
  by (simp add: instrument_binary_unfold and_then_def run_check_nonzero spawned_append)

theorem instrument_binary_disassembler_failure_witness:
  "environ sample_world ''FUZZ_TARGET'' = Some ''sample'' \<and> environ sample_world ''OUT'' = Some ''/out''
   \<and> sample_exec (ddisasm_argv ''/out'' ''sample'') (environ sample_world) (cwd sample_world)
        (files sample_world) = (Some 1, sample_files)
   \<and> fst (instrument_binary sample_exec sample_world)
        = Inl (CalledProcessError 1 [''ddisasm'', ''/out/sample'', ''--ir'', ''sample.gtirb''])
   \<and> spawned (trace (snd (instrument_binary sample_exec sample_world)))
        = [[''ddisasm'', ''/out/sample'', ''--ir'', ''sample.gtirb'']]
   \<and> files (snd (instrument_binary sample_exec sample_world)) = sample_files"
proof -
  have h1: "environ sample_world ''FUZZ_TARGET'' = Some ''sample''"
    by (simp add: sample_world_def)
  have h2: "environ sample_world ''OUT'' = Some ''/out''"
    by (simp add: sample_world_def)
  have h3: "sample_exec (ddisasm_argv ''/out'' ''sample'') (environ sample_world) (cwd sample_world)
        (files sample_world) = (Some 1, sample_files)"
    by code_simp
  have h4: "(1::int) \<noteq> 0" by simp
  have t: "trace sample_world = []" by (simp add: sample_world_def)
  from instrument_binary_disassembler_failure
    [where w = sample_world and t = "''sample''" and out = "''/out''" and exec = sample_exec
       and rc = 1 and fs = sample_files, OF h1 h2 h3 h4] h1 h2 h3
  show ?thesis
    by (simp add: ddisasm_argv_def t)
qed


section \<open>The build orchestrator\<close>










lemma shutil_copy_frame:
  "environ (snd (shutil_copy s d w)) = environ w"
  "cwd (snd (shutil_copy s d w)) = cwd w"
  "trace (snd (shutil_copy s d w)) = trace w @ [CopyFile s d]"
  by (auto simp: shutil_copy_def action_defs Let_def split: option.splits node.splits)

lemma build_uninstrumented_unfold:
  "build_uninstrumented_benchmark exec utils w =
     and_then (shutil_copy ''/libStandaloneFuzzTarget.a'' ''/usr/lib/libFuzzingEngine.a'') (\<lambda>_.
     and_then (environ_get ''SRC'') (\<lambda>src.
       subprocess_check_call exec (build_argv src) (build_env utils (environ w))))
     (w\<lparr>environ := build_env utils (environ w)\<rparr>)"
proof -
  let ?w0 = "w\<lparr>environ := build_env utils (environ w)\<rparr>"
  obtain r w1 where c: "shutil_copy ''/libStandaloneFuzzTarget.a'' ''/usr/lib/libFuzzingEngine.a'' ?w0 = (r, w1)"
    by (cases "shutil_copy ''/libStandaloneFuzzTarget.a'' ''/usr/lib/libFuzzingEngine.a'' ?w0")
  have e: "environ w1 = build_env utils (environ w)"
    using shutil_copy_frame(1) [of "''/libStandaloneFuzzTarget.a''" "''/usr/lib/libFuzzingEngine.a''" ?w0] c
    by simp
  show ?thesis
    using c e
    by (simp add: build_uninstrumented_benchmark_def action_defs build_env_def build_argv_def Let_def
        split: sum.splits option.splits)
qed





section \<open>The fuzz run\<close>

lemma prepare_unfold:
  "prepare_fuzz_environment seed c w =
     create_seed_file_for_empty_corpus seed c (w\<lparr>environ := afl_env (environ w)\<rparr>)"
  by (simp add: prepare_fuzz_environment_def action_defs afl_env_def)

lemma open_write_frame:
  "environ (snd (open_write p data w)) = environ w"
  "cwd (snd (open_write p data w)) = cwd w"
  "umask (snd (open_write p data w)) = umask w"
  "trace (snd (open_write p data w)) = trace w @ [WriteFile p]"
  by (auto simp: open_write_def action_defs Let_def split: option.splits node.splits)

lemma os_listdir_eq:
  "os_listdir p w =
     (case map_of (files w) (abspath (cwd w) p) of
        None \<Rightarrow> Inl (FileNotFoundError (abspath (cwd w) p))
      | Some (File c m) \<Rightarrow> Inl (NotADirectoryError (abspath (cwd w) p))
      | Some Dir \<Rightarrow> Inr (listdir_of (files w) (abspath (cwd w) p)),
      w\<lparr>trace := trace w @ [ListDir p]\<rparr>)"
  by (simp add: os_listdir_def action_defs Let_def split: option.splits node.splits)

lemma create_seed_frame:
  "environ (snd (create_seed_file_for_empty_corpus seed c w)) = environ w"
  "cwd (snd (create_seed_file_for_empty_corpus seed c w)) = cwd w"
  "spawned (trace (snd (create_seed_file_for_empty_corpus seed c w))) = spawned (trace w)"
  by (auto simp: create_seed_file_for_empty_corpus_def os_listdir_eq and_then_def ok_def
      open_write_frame spawned_append split: option.splits node.splits)

lemma create_seed_environ_indep:
  "create_seed_file_for_empty_corpus seed c (w\<lparr>environ := e\<rparr>) =
     (fst (create_seed_file_for_empty_corpus seed c w),
      (snd (create_seed_file_for_empty_corpus seed c w))\<lparr>environ := e\<rparr>)"
  by (auto simp: create_seed_file_for_empty_corpus_def os_listdir_eq and_then_def ok_def
      open_write_def record_call_def Let_def split: option.splits node.splits)

lemma prepare_frame:
  "environ (snd (prepare_fuzz_environment seed c w)) = afl_env (environ w)"
  "cwd (snd (prepare_fuzz_environment seed c w)) = cwd w"
  "spawned (trace (snd (prepare_fuzz_environment seed c w))) = spawned (trace w)"
  by (simp_all add: prepare_unfold create_seed_frame)

lemma fuzz_unfold:
  "fuzz exec seed i out t w =
     and_then (prepare_fuzz_environment seed i) (\<lambda>_.
     and_then (subprocess_call exec (fuzz_argv i out t)) (\<lambda>_. ok ())) w"
  by (simp add: fuzz_def fuzz_argv_def Let_def)

text \<open>
  C5. \<^verbatim>\<open>fuzz\<close> launches the engine after the environment preparation: when the preparation
  completes, the engine is started exactly in the state the preparation left (its environment
  table, which holds the six settings, and its files), its argument vector is
  \<^verbatim>\<open>['./afl-fuzz', '-i', input_corpus, '-o', output_corpus, '--', target_binary + '.dafl', '@@']\<close>,
  and it is the only command started. When the preparation raises, \<^verbatim>\<open>fuzz\<close> raises the same
  error and starts no command.
\<close>

theorem fuzz_launches_engine_after_preparation:
  "(prepare_fuzz_environment seed input_corpus w = (Inr (), w1) \<longrightarrow>
      fuzz exec seed input_corpus output_corpus target_binary w =
        (case exec (fuzz_argv input_corpus output_corpus target_binary)
                (environ w1) (cwd w1) (files w1) of
           (None, fs) \<Rightarrow>
             (Inl (OSError (fuzz_argv input_corpus output_corpus target_binary)),
              w1\<lparr>trace := trace w1 @
                [Spawn (fuzz_argv input_corpus output_corpus target_binary) (environ w1)]\<rparr>)
         | (Some rc, fs) \<Rightarrow>
             (Inr (),
              w1\<lparr>trace := trace w1 @
                [Spawn (fuzz_argv input_corpus output_corpus target_binary) (environ w1)],
                files := fs\<rparr>))
      \<and> environ w1 = afl_env (environ w)
      \<and> spawned (trace (snd (fuzz exec seed input_corpus output_corpus target_binary w))) =
          spawned (trace w) @
            [[''./afl-fuzz'', ''-i'', input_corpus, ''-o'', output_corpus, ''--'',
              target_binary @ ''.dafl'', ''@@'']])
   \<and> (prepare_fuzz_environment seed input_corpus w = (Inl e, w1) \<longrightarrow>
      fuzz exec seed input_corpus output_corpus target_binary w = (Inl e, w1)
      \<and> spawned (trace w1) = spawned (trace w))"
proof -
  have p: "environ (snd (prepare_fuzz_environment seed input_corpus w)) = afl_env (environ w)"
    "spawned (trace (snd (prepare_fuzz_environment seed input_corpus w))) = spawned (trace w)"
    by (rule prepare_frame)+
  show ?thesis
    using p
    by (auto simp: fuzz_unfold and_then_def ok_def subprocess_call_def spawn_def record_call_def
        spawned_append fuzz_argv_def split: prod.splits option.splits)
qed

theorem fuzz_launches_engine_after_preparation_witness:
  "fst (prepare_fuzz_environment sample_seed ''/corpus'' sample_world) = Inr ()
   \<and> spawned (trace (snd (fuzz sample_exec sample_seed ''/corpus'' ''/out/corpus'' ''/out/sample''
        sample_world)))
      = [[''./afl-fuzz'', ''-i'', ''/corpus'', ''-o'', ''/out/corpus'', ''--'', ''/out/sample.dafl'', ''@@'']]
   \<and> fst (prepare_fuzz_environment sample_seed ''/nocorpus'' sample_world)
      = Inl (FileNotFoundError [''nocorpus''])
   \<and> fst (fuzz sample_exec sample_seed ''/nocorpus'' ''/out/corpus'' ''/out/sample'' sample_world)
      = Inl (FileNotFoundError [''nocorpus''])"
proof -
  have a: "fst (prepare_fuzz_environment sample_seed ''/corpus'' sample_world) = Inr ()"
    by code_simp
  have b: "fst (prepare_fuzz_environment sample_seed ''/nocorpus'' sample_world)
      = Inl (FileNotFoundError [''nocorpus''])"
    by code_simp
  have t: "trace sample_world = []" by (simp add: sample_world_def)
  have pa: "prepare_fuzz_environment sample_seed ''/corpus'' sample_world
      = (Inr (), snd (prepare_fuzz_environment sample_seed ''/corpus'' sample_world))"
    by (rule pair_of_fst [OF a])
  have pb: "prepare_fuzz_environment sample_seed ''/nocorpus'' sample_world
      = (Inl (FileNotFoundError [''nocorpus'']),
         snd (prepare_fuzz_environment sample_seed ''/nocorpus'' sample_world))"
    by (rule pair_of_fst [OF b])
  from fuzz_launches_engine_after_preparation
    [where seed = sample_seed and input_corpus = "''/corpus''" and w = sample_world
       and ?w1.0 = "snd (prepare_fuzz_environment sample_seed ''/corpus'' sample_world)"
       and exec = sample_exec and output_corpus = "''/out/corpus''"
       and target_binary = "''/out/sample''"] pa
  have "spawned (trace (snd (fuzz sample_exec sample_seed ''/corpus'' ''/out/corpus'' ''/out/sample''
        sample_world)))
      = spawned (trace sample_world) @
        [[''./afl-fuzz'', ''-i'', ''/corpus'', ''-o'', ''/out/corpus'', ''--'',
          ''/out/sample'' @ ''.dafl'', ''@@'']]"
    by blast
  then have c: "spawned (trace (snd (fuzz sample_exec sample_seed ''/corpus'' ''/out/corpus'' ''/out/sample''
        sample_world)))
      = [[''./afl-fuzz'', ''-i'', ''/corpus'', ''-o'', ''/out/corpus'', ''--'', ''/out/sample.dafl'', ''@@'']]"
    by (simp add: t)
  from fuzz_launches_engine_after_preparation
    [where seed = sample_seed and input_corpus = "''/nocorpus''" and w = sample_world
       and e = "FileNotFoundError [''nocorpus'']"
       and ?w1.0 = "snd (prepare_fuzz_environment sample_seed ''/nocorpus'' sample_world)"
       and exec = sample_exec and output_corpus = "''/out/corpus''"
       and target_binary = "''/out/sample''"] pb
  have "fuzz sample_exec sample_seed ''/nocorpus'' ''/out/corpus'' ''/out/sample'' sample_world
      = (Inl (FileNotFoundError [''nocorpus'']),
         snd (prepare_fuzz_environment sample_seed ''/nocorpus'' sample_world))"
    by blast
  then have d: "fst (fuzz sample_exec sample_seed ''/nocorpus'' ''/out/corpus'' ''/out/sample'' sample_world)
      = Inl (FileNotFoundError [''nocorpus''])"
    by simp
  from a b c d show ?thesis by simp
qed

lemma fuzz_spawned:
  "spawned (trace (snd (fuzz exec seed i out t w))) =
     spawned (trace w) @
       (case fst (prepare_fuzz_environment seed i w) of Inl e \<Rightarrow> [] | Inr u \<Rightarrow> [fuzz_argv i out t])"
proof -
  have p: "spawned (trace (snd (prepare_fuzz_environment seed i w))) = spawned (trace w)"
    by (rule prepare_frame)
  show ?thesis
    using p
    by (cases "prepare_fuzz_environment seed i w")
       (auto simp: fuzz_unfold and_then_def ok_def subprocess_call_def spawn_def record_call_def
         spawned_append split: prod.splits option.splits sum.splits)
qed

lemma prepare_outcome_environ_indep:
  "fst (prepare_fuzz_environment seed c (w\<lparr>environ := e\<rparr>)) =
     fst (create_seed_file_for_empty_corpus seed c w)"
  by (simp add: prepare_unfold create_seed_environ_indep)

text \<open>
  C10. The command line \<^verbatim>\<open>fuzz\<close> gives the engine depends on its three arguments only: for any
  two values of the variable \<^verbatim>\<open>FUZZ_TARGET\<close>, the same call of \<^verbatim>\<open>fuzz\<close> starts the same
  commands with the same argument vectors.
\<close>

theorem fuzz_command_line_independent_of_fuzz_target:
  "spawned (trace (snd (fuzz exec seed input_corpus output_corpus target_binary
       (w\<lparr>environ := (environ w)(''FUZZ_TARGET'' \<mapsto> v1)\<rparr>)))) =
   spawned (trace (snd (fuzz exec seed input_corpus output_corpus target_binary
       (w\<lparr>environ := (environ w)(''FUZZ_TARGET'' \<mapsto> v2)\<rparr>))))"
  by (simp add: fuzz_spawned prepare_outcome_environ_indep)


section \<open>Exit statuses\<close>

text \<open>
  C6. \<^verbatim>\<open>fuzz\<close> returns normally whatever the exit status of the engine, while each earlier
  step raises \<^verbatim>\<open>CalledProcessError\<close> on a non-zero status of its child: the build script in
  \<^verbatim>\<open>build_uninstrumented_benchmark\<close>, the disassembler and the re-assembler in
  \<^verbatim>\<open>instrument_binary\<close>.
\<close>

theorem exit_status_checked_except_in_fuzz:
  "(prepare_fuzz_environment seed input_corpus w = (Inr (), w1)
      \<and> exec (fuzz_argv input_corpus output_corpus target_binary) (environ w1) (cwd w1) (files w1)
          = (Some rc, fs) \<longrightarrow>
    fst (fuzz exec seed input_corpus output_corpus target_binary w) = Inr ())
   \<and> (shutil_copy ''/libStandaloneFuzzTarget.a'' ''/usr/lib/libFuzzingEngine.a''
        (w\<lparr>environ := build_env utils (environ w)\<rparr>) = (Inr (), w1)
      \<and> environ w1 ''SRC'' = Some src
      \<and> exec (build_argv src) (environ w1) (cwd w1) (files w1) = (Some rc, fs) \<and> rc \<noteq> 0 \<longrightarrow>
    fst (build_uninstrumented_benchmark exec utils w) = Inl (CalledProcessError rc (build_argv src)))
   \<and> (environ w ''FUZZ_TARGET'' = Some t \<and> environ w ''OUT'' = Some out
      \<and> exec (ddisasm_argv out t) (environ w) (cwd w) (files w) = (Some rc, fs) \<and> rc \<noteq> 0 \<longrightarrow>
    fst (instrument_binary exec w) = Inl (CalledProcessError rc (ddisasm_argv out t)))
   \<and> (environ w ''FUZZ_TARGET'' = Some t \<and> environ w ''OUT'' = Some out
      \<and> subprocess_run_check exec (ddisasm_argv out t) w = (Inr (), w1)
      \<and> open_write assembler create_assembler w1 = (Inr (), w2)
      \<and> os_chmod assembler 511 w2 = (Inr (), w3)
      \<and> exec (pprinter_argv out t) (environ w3) (cwd w3) (files w3) = (Some rc, fs) \<and> rc \<noteq> 0 \<longrightarrow>
    fst (instrument_binary exec w) = Inl (CalledProcessError rc (pprinter_argv out t)))"
proof (intro conjI impI)
  assume "prepare_fuzz_environment seed input_corpus w = (Inr (), w1)
      \<and> exec (fuzz_argv input_corpus output_corpus target_binary) (environ w1) (cwd w1) (files w1)
          = (Some rc, fs)"
  then show "fst (fuzz exec seed input_corpus output_corpus target_binary w) = Inr ()"
    by (simp add: fuzz_unfold and_then_def subprocess_call_def spawn_status ok_def)
next
  assume a: "shutil_copy ''/libStandaloneFuzzTarget.a'' ''/usr/lib/libFuzzingEngine.a''
        (w\<lparr>environ := build_env utils (environ w)\<rparr>) = (Inr (), w1)
      \<and> environ w1 ''SRC'' = Some src
      \<and> exec (build_argv src) (environ w1) (cwd w1) (files w1) = (Some rc, fs) \<and> rc \<noteq> 0"
  have e: "environ w1 = build_env utils (environ w)"
    using a shutil_copy_frame(1) [of "''/libStandaloneFuzzTarget.a''" "''/usr/lib/libFuzzingEngine.a''"
        "w\<lparr>environ := build_env utils (environ w)\<rparr>"]
    by simp
  from a e have x: "exec (build_argv src) (build_env utils (environ w)) (cwd w1) (files w1) = (Some rc, fs)"
    by simp
  from a show "fst (build_uninstrumented_benchmark exec utils w)
      = Inl (CalledProcessError rc (build_argv src))"
    using check_call_nonzero [of exec "build_argv src" "build_env utils (environ w)" w1 rc fs] x
    by (simp add: build_uninstrumented_unfold and_then_def environ_get_def)
next
  assume "environ w ''FUZZ_TARGET'' = Some t \<and> environ w ''OUT'' = Some out
      \<and> exec (ddisasm_argv out t) (environ w) (cwd w) (files w) = (Some rc, fs) \<and> rc \<noteq> 0"
  then show "fst (instrument_binary exec w) = Inl (CalledProcessError rc (ddisasm_argv out t))"
    by (simp add: instrument_binary_unfold and_then_def run_check_nonzero)
next
  assume a: "environ w ''FUZZ_TARGET'' = Some t \<and> environ w ''OUT'' = Some out
      \<and> subprocess_run_check exec (ddisasm_argv out t) w = (Inr (), w1)
      \<and> open_write assembler create_assembler w1 = (Inr (), w2)
      \<and> os_chmod assembler 511 w2 = (Inr (), w3)
      \<and> exec (pprinter_argv out t) (environ w3) (cwd w3) (files w3) = (Some rc, fs) \<and> rc \<noteq> 0"
  then obtain fs1 where "w1 = w\<lparr>trace := trace w @ [Spawn (ddisasm_argv out t) (environ w)], files := fs1\<rparr>"
    using run_check_success by blast
  then have e1: "environ w1 = environ w" by simp
  have e2: "environ w2 = environ w1"
    using a open_write_frame(1) [of assembler create_assembler w1] by simp
  have e3: "environ w3 = environ w2"
    using a by (auto simp: os_chmod_def action_defs Let_def split: option.splits node.splits)
  from a e1 e2 e3 have o: "environ w3 ''OUT'' = Some out" by simp
  from a o show "fst (instrument_binary exec w) = Inl (CalledProcessError rc (pprinter_argv out t))"
    by (simp add: instrument_binary_unfold and_then_def environ_get_def run_check_nonzero)
qed

theorem exit_status_checked_except_in_fuzz_witness:
  "fst (fuzz sample_exec sample_seed ''/corpus'' ''/out/corpus'' ''/out/sample'' sample_world) = Inr ()
   \<and> fst (build_uninstrumented_benchmark sample_exec sample_utils nosrc_world)
       = Inl (CalledProcessError 1 [''/bin/bash'', ''-ex'', ''/missing/build.sh''])
   \<and> fst (instrument_binary sample_exec sample_world)
       = Inl (CalledProcessError 1 [''ddisasm'', ''/out/sample'', ''--ir'', ''sample.gtirb''])
   \<and> fst (instrument_binary failing_pprinter_exec built_world)
       = Inl (CalledProcessError 1
           [''gtirb-pprinter'', ''sample.gtirb'', ''--syntax'', ''att'', ''--binary'',
            ''/out/sample.dafl'', ''--use-gcc'', ''/src/fuzzers/aflplusplus_ddisasm/assemble.sh''])"
proof -
  let ?w1 = "snd (prepare_fuzz_environment sample_seed ''/corpus'' sample_world)"
  have "fst (prepare_fuzz_environment sample_seed ''/corpus'' sample_world) = Inr ()"
    by code_simp
  then have a1: "prepare_fuzz_environment sample_seed ''/corpus'' sample_world = (Inr (), ?w1)"
    by (rule pair_of_fst)
  have a2: "sample_exec (fuzz_argv ''/corpus'' ''/out/corpus'' ''/out/sample'')
      (environ ?w1) (cwd ?w1) (files ?w1) = (Some 1, files ?w1)"
    by (rule sample_exec_fuzz)
  from exit_status_checked_except_in_fuzz
    [where seed = sample_seed and input_corpus = "''/corpus''" and w = sample_world
       and ?w1.0 = ?w1 and exec = sample_exec and output_corpus = "''/out/corpus''"
       and target_binary = "''/out/sample''" and rc = 1 and fs = "files ?w1"] a1 a2
  have a: "fst (fuzz sample_exec sample_seed ''/corpus'' ''/out/corpus'' ''/out/sample'' sample_world)
      = Inr ()"
    by blast

  let ?c = "shutil_copy ''/libStandaloneFuzzTarget.a'' ''/usr/lib/libFuzzingEngine.a''
        (nosrc_world\<lparr>environ := build_env sample_utils (environ nosrc_world)\<rparr>)"
  have "fst ?c = Inr ()" by code_simp
  then have b1: "?c = (Inr (), snd ?c)" by (rule pair_of_fst)
  have b2: "environ (snd ?c) ''SRC'' = Some ''/missing''"
    by (simp add: shutil_copy_frame build_env_def nosrc_world_def)
  have b3: "sample_exec (build_argv ''/missing'') (environ (snd ?c)) (cwd (snd ?c)) (files (snd ?c))
      = (Some 1, files (snd ?c))"
    by code_simp
  have one: "(1::int) \<noteq> 0" by simp
  from exit_status_checked_except_in_fuzz
    [where w = nosrc_world and utils = sample_utils and ?w1.0 = "snd ?c" and src = "''/missing''"
       and exec = sample_exec and rc = 1 and fs = "files (snd ?c)"] b1 b2 b3 one
  have "fst (build_uninstrumented_benchmark sample_exec sample_utils nosrc_world)
      = Inl (CalledProcessError 1 (build_argv ''/missing''))"
    by blast
  then have b: "fst (build_uninstrumented_benchmark sample_exec sample_utils nosrc_world)
       = Inl (CalledProcessError 1 [''/bin/bash'', ''-ex'', ''/missing/build.sh''])"
    by (simp add: build_argv_def os_path_join_def is_abs_def slash_def)

  have c1: "environ sample_world ''FUZZ_TARGET'' = Some ''sample''"
    and c2: "environ sample_world ''OUT'' = Some ''/out''"
    by (simp_all add: sample_world_def)
  have c3: "sample_exec (ddisasm_argv ''/out'' ''sample'') (environ sample_world) (cwd sample_world)
        (files sample_world) = (Some 1, sample_files)"
    by code_simp
  from exit_status_checked_except_in_fuzz
    [where w = sample_world and t = "''sample''" and out = "''/out''" and exec = sample_exec
       and rc = 1 and fs = sample_files] c1 c2 c3 one
  have "fst (instrument_binary sample_exec sample_world)
      = Inl (CalledProcessError 1 (ddisasm_argv ''/out'' ''sample''))"
    by blast
  then have c: "fst (instrument_binary sample_exec sample_world)
       = Inl (CalledProcessError 1 [''ddisasm'', ''/out/sample'', ''--ir'', ''sample.gtirb''])"
    by (simp add: ddisasm_argv_def)

  let ?d1 = "snd (subprocess_run_check failing_pprinter_exec (ddisasm_argv ''/out'' ''sample'') built_world)"
  let ?d2 = "snd (open_write assembler create_assembler ?d1)"
  let ?d3 = "snd (os_chmod assembler 511 ?d2)"
  have d1: "environ built_world ''FUZZ_TARGET'' = Some ''sample''"
    and d2: "environ built_world ''OUT'' = Some ''/out''"
    by (simp_all add: built_world_def sample_world_def)
  have "fst (subprocess_run_check failing_pprinter_exec (ddisasm_argv ''/out'' ''sample'') built_world)
      = Inr ()"
    by code_simp
  then have d3: "subprocess_run_check failing_pprinter_exec (ddisasm_argv ''/out'' ''sample'') built_world
      = (Inr (), ?d1)"
    by (rule pair_of_fst)
  have "fst (open_write assembler create_assembler ?d1) = Inr ()"
    by code_simp
  then have d4: "open_write assembler create_assembler ?d1 = (Inr (), ?d2)"
    by (rule pair_of_fst)
  have "fst (os_chmod assembler 511 ?d2) = Inr ()"
    by code_simp
  then have d5: "os_chmod assembler 511 ?d2 = (Inr (), ?d3)"
    by (rule pair_of_fst)
  have d6: "failing_pprinter_exec (pprinter_argv ''/out'' ''sample'') (environ ?d3) (cwd ?d3) (files ?d3)
      = (Some 1, files ?d3)"
    by (rule failing_pprinter_exec_run)
  from exit_status_checked_except_in_fuzz
    [where w = built_world and t = "''sample''" and out = "''/out''" and exec = failing_pprinter_exec
       and ?w1.0 = ?d1 and ?w2.0 = ?d2 and ?w3.0 = ?d3 and rc = 1 and fs = "files ?d3"]
    d1 d2 d3 d4 d5 d6 one
  have "fst (instrument_binary failing_pprinter_exec built_world)
      = Inl (CalledProcessError 1 (pprinter_argv ''/out'' ''sample''))"
    by blast
  then have d: "fst (instrument_binary failing_pprinter_exec built_world)
       = Inl (CalledProcessError 1
           [''gtirb-pprinter'', ''sample.gtirb'', ''--syntax'', ''att'', ''--binary'',
            ''/out/sample.dafl'', ''--use-gcc'', ''/src/fuzzers/aflplusplus_ddisasm/assemble.sh''])"
    by (simp add: pprinter_argv_def assembler_def)
  from a b c d show ?thesis by simp
qed

section \<open>Preparing the fuzz environment\<close>

subsection \<open>Paths\<close>

lemma split_slash_not_Nil: "split_slash p \<noteq> []"
  by (induction p) (auto split: list.splits)

lemma split_slash_plain: "slash \<notin> set n \<Longrightarrow> split_slash n = [n]"
  by (induction n) auto

lemma split_slash_append: "split_slash (a @ slash # b) = split_slash a @ split_slash b"
proof (induction a)
  case Nil
  then show ?case by simp
next
  case (Cons c a)
  then show ?case
    using split_slash_not_Nil [of a] by (cases "split_slash a") auto
qed

lemma components_append: "components (a @ slash # b) = components a @ components b"
  by (simp add: components_def split_slash_append)

lemma components_Nil: "components [] = []"
  by (simp add: components_def)

lemma components_plain: "plain_name n \<Longrightarrow> components n = [n]"
  by (simp add: components_def plain_name_def split_slash_plain)

lemma plain_name_not_abs: "plain_name n \<Longrightarrow> \<not> is_abs n"
  by (cases n) (auto simp: plain_name_def is_abs_def)

lemma components_join:
  assumes "plain_name n"
  shows "components (os_path_join p n) = components p @ [n]"
proof (cases "p = [] \<or> last p = slash")
  case True
  show ?thesis
  proof (cases "p = []")
    case True
    with assms show ?thesis
      by (simp add: os_path_join_def plain_name_not_abs components_Nil components_plain)
  next
    case False
    with True have p: "p = butlast p @ [slash]"
      by (metis append_butlast_last_id)
    have "components (os_path_join p n) = components (butlast p @ slash # n)"
      using True False assms p
      by (metis append.assoc append_Cons append_Nil os_path_join_def plain_name_not_abs)
    also have "\<dots> = components (butlast p) @ [n]"
      using assms by (simp add: components_append components_plain)
    also have "components (butlast p) = components p"
      using components_append [of "butlast p" "[]"] p by (simp add: components_Nil)
    finally show ?thesis .
  qed
next
  case False
  with assms show ?thesis
    by (simp add: os_path_join_def plain_name_not_abs components_append components_plain)
qed

lemma is_abs_join: "plain_name n \<Longrightarrow> is_abs (os_path_join p n) = is_abs p"
  using plain_name_not_abs [of n] by (cases p) (auto simp: os_path_join_def is_abs_def)

lemma abspath_join_plain:
  assumes "plain_name n"
  shows "abspath d (os_path_join p n) = abspath d p @ [n]"
  using assms
  by (simp add: abspath_def components_join is_abs_join norm_step_def plain_name_def)

subsection \<open>Directory listings\<close>

lemma listdir_of_member:
  assumes "map_of fs k = Some v" and "k \<noteq> []"
  shows "last k \<in> set (listdir_of fs (butlast k))"
proof -
  from assms(1) have "(k, v) \<in> set fs" by (rule map_of_SomeD)
  with assms(2) show ?thesis
    by (force simp: listdir_of_def)
qed

lemma update_absent: "map_of fs k = None \<Longrightarrow> AList.update k v fs = fs @ [(k, v)]"
  by (induction fs) (auto split: if_splits)

lemma listdir_of_snoc:
  "listdir_of (fs @ [(k, v)]) d = listdir_of fs d @ (if k \<noteq> [] \<and> butlast k = d then [last k] else [])"
  by (simp add: listdir_of_def)

text \<open>
  C7. When the input corpus is an existing, empty directory, \<^verbatim>\<open>prepare_fuzz_environment\<close>
  completes, and afterwards the directory holds exactly one entry, the placeholder seed, whose
  content is not empty.
\<close>

theorem prepare_fuzz_environment_empty_corpus:
  assumes "map_of (files w) (abspath (cwd w) input_corpus) = Some Dir"
    and "listdir_of (files w) (abspath (cwd w) input_corpus) = []"
    and "plain_name (seed_name seed)"
  shows "fst (prepare_fuzz_environment seed input_corpus w) = Inr ()
    \<and> listdir_of (files (snd (prepare_fuzz_environment seed input_corpus w)))
         (abspath (cwd w) input_corpus) = [seed_name seed]
    \<and> map_of (files (snd (prepare_fuzz_environment seed input_corpus w)))
         (abspath (cwd w) input_corpus @ [seed_name seed])
       = Some (File (seed_content seed) (438 AND NOT (umask w)))
    \<and> seed_content seed \<noteq> []"
proof -
  let ?d = "abspath (cwd w) input_corpus"
  let ?k = "?d @ [seed_name seed]"
  have k: "abspath (cwd w) (os_path_join input_corpus (seed_name seed)) = ?k"
    using assms(3) by (rule abspath_join_plain)
  have absent: "map_of (files w) ?k = None"
  proof (cases "map_of (files w) ?k")
    case None
    then show ?thesis .
  next
    case (Some v)
    then have "last ?k \<in> set (listdir_of (files w) (butlast ?k))"
      by (rule listdir_of_member) simp
    with assms(2) show ?thesis by simp
  qed
  let ?f = "File (seed_content seed) (438 AND NOT (umask w))"
  have run: "prepare_fuzz_environment seed input_corpus w =
      (Inr (), w\<lparr>environ := afl_env (environ w),
                  files := AList.update ?k ?f (files w),
                  trace := trace w @ [ListDir input_corpus,
                    WriteFile (os_path_join input_corpus (seed_name seed))]\<rparr>)"
    using assms(1,2) absent
    by (simp add: prepare_unfold create_seed_file_for_empty_corpus_def os_listdir_eq and_then_def
        open_write_def record_call_def Let_def k)
  have upd: "AList.update ?k ?f (files w) = files w @ [(?k, ?f)]"
    using absent by (rule update_absent)
  have l: "listdir_of (AList.update ?k ?f (files w)) ?d = [seed_name seed]"
    using assms(2) by (simp add: upd listdir_of_snoc)
  have m: "map_of (AList.update ?k ?f (files w)) ?k = Some ?f"
    by (simp add: AList.update_conv')
  show ?thesis
    using l m by (simp add: run seed_content_def)
qed

theorem prepare_fuzz_environment_empty_corpus_witness:
  "map_of (files sample_world) (abspath (cwd sample_world) ''/corpus'') = Some Dir
   \<and> listdir_of (files sample_world) (abspath (cwd sample_world) ''/corpus'') = []
   \<and> plain_name (seed_name sample_seed)
   \<and> fst (prepare_fuzz_environment sample_seed ''/corpus'' sample_world) = Inr ()
   \<and> listdir_of (files (snd (prepare_fuzz_environment sample_seed ''/corpus'' sample_world)))
        [''corpus''] = [''default_seed'']
   \<and> map_of (files (snd (prepare_fuzz_environment sample_seed ''/corpus'' sample_world)))
        [''corpus'', ''default_seed''] = Some (File ''hi'' 420)"
proof -
  have p: "abspath (cwd sample_world) ''/corpus'' = [''corpus'']"
    by code_simp
  have h1: "map_of (files sample_world) (abspath (cwd sample_world) ''/corpus'') = Some Dir"
    by code_simp
  have h2: "listdir_of (files sample_world) (abspath (cwd sample_world) ''/corpus'') = []"
    by code_simp
  have h3: "plain_name (seed_name sample_seed)"
    by code_simp
  have n: "seed_name sample_seed = ''default_seed''" "seed_content sample_seed = ''hi''"
    by (simp_all add: sample_seed_def seed_content_def)
  have u: "(438::int) AND NOT (umask sample_world) = 420"
    by (simp add: sample_world_def)
  from prepare_fuzz_environment_empty_corpus [OF h1 h2 h3] h1 h2 h3 show ?thesis
    by (simp add: p n u)
qed

subsection \<open>Calling the preparation twice\<close>

lemma afl_env_idem: "afl_env (afl_env e) = afl_env e"
  by (rule ext) (simp add: afl_env_def)

lemma update_same: "AList.update k v (AList.update k v fs) = AList.update k v fs"
  by (rule AList.update_triv) (simp add: AList.update_conv')

lemma open_write_outcome:
  "fst (open_write p data w) = 
     (case map_of (files w) (abspath (cwd w) p) of
         Some Dir \<Rightarrow> Inl (IsADirectoryError (abspath (cwd w) p))
       | Some (File c m) \<Rightarrow> Inr ()
       | None \<Rightarrow>
           (case map_of (files w) (butlast (abspath (cwd w) p)) of
              Some Dir \<Rightarrow> Inr ()
            | Some (File c m) \<Rightarrow> Inl (NotADirectoryError (abspath (cwd w) p))
            | None \<Rightarrow> Inl (FileNotFoundError (abspath (cwd w) p))))"
  "files (snd (open_write p data w)) = 
     (case map_of (files w) (abspath (cwd w) p) of
         Some Dir \<Rightarrow> files w
       | Some (File c m) \<Rightarrow> AList.update (abspath (cwd w) p) (File data m) (files w)
       | None \<Rightarrow>
           (case map_of (files w) (butlast (abspath (cwd w) p)) of
              Some Dir \<Rightarrow> AList.update (abspath (cwd w) p) (File data (438 AND NOT (umask w))) (files w)
            | Some (File c m) \<Rightarrow> files w
            | None \<Rightarrow> files w))"
  by (auto simp: open_write_def action_defs Let_def split: option.splits node.splits)

lemma open_write_twice:
  assumes "fst (open_write p data w) = Inr ()"
  shows "fst (open_write p data (snd (open_write p data w))) = Inr ()"
    and "files (snd (open_write p data (snd (open_write p data w)))) = files (snd (open_write p data w))"
  using assms
  by (auto simp: open_write_outcome open_write_frame AList.update_conv' update_same
      split: option.splits node.splits)

lemma open_write_failed:
  assumes "fst (open_write p data w) = Inl e"
  shows "files (snd (open_write p data w)) = files w"
  using assms
  by (auto simp: open_write_outcome split: option.splits node.splits)

lemma open_write_keeps_dir:
  assumes "map_of (files w) d = Some Dir"
  shows "map_of (files (snd (open_write p data w))) d = Some Dir"
  using assms
  by (auto simp: open_write_outcome AList.update_conv' split: option.splits node.splits)

lemma open_write_same_files:
  assumes "files w2 = files w" and "cwd w2 = cwd w" and "umask w2 = umask w"
  shows "fst (open_write p data w2) = fst (open_write p data w)"
    and "files (snd (open_write p data w2)) = files (snd (open_write p data w))"
  using assms by (simp_all add: open_write_outcome split: option.splits node.splits)


lemma create_seed_outcome:
  "fst (create_seed_file_for_empty_corpus seed c w) =
     (case map_of (files w) (abspath (cwd w) c) of
        None \<Rightarrow> Inl (FileNotFoundError (abspath (cwd w) c))
      | Some (File x m) \<Rightarrow> Inl (NotADirectoryError (abspath (cwd w) c))
      | Some Dir \<Rightarrow>
          if listdir_of (files w) (abspath (cwd w) c) = []
          then fst (open_write (os_path_join c (seed_name seed)) (seed_content seed) w)
          else Inr ())"
  "files (snd (create_seed_file_for_empty_corpus seed c w)) =
     (case map_of (files w) (abspath (cwd w) c) of
        None \<Rightarrow> files w
      | Some (File x m) \<Rightarrow> files w
      | Some Dir \<Rightarrow>
          if listdir_of (files w) (abspath (cwd w) c) = []
          then files (snd (open_write (os_path_join c (seed_name seed)) (seed_content seed) w))
          else files w)"
proof -
  let ?w = "w\<lparr>trace := trace w @ [ListDir c]\<rparr>"
  have s: "fst (open_write p data ?w) = fst (open_write p data w)"
    "files (snd (open_write p data ?w)) = files (snd (open_write p data w))" for p data
    by (rule open_write_same_files; simp)+
  show "fst (create_seed_file_for_empty_corpus seed c w) =
     (case map_of (files w) (abspath (cwd w) c) of
        None \<Rightarrow> Inl (FileNotFoundError (abspath (cwd w) c))
      | Some (File x m) \<Rightarrow> Inl (NotADirectoryError (abspath (cwd w) c))
      | Some Dir \<Rightarrow>
          if listdir_of (files w) (abspath (cwd w) c) = []
          then fst (open_write (os_path_join c (seed_name seed)) (seed_content seed) w)
          else Inr ())"
    by (simp add: create_seed_file_for_empty_corpus_def os_listdir_eq and_then_def ok_def s
        split: option.splits node.splits)
  show "files (snd (create_seed_file_for_empty_corpus seed c w)) =
     (case map_of (files w) (abspath (cwd w) c) of
        None \<Rightarrow> files w
      | Some (File x m) \<Rightarrow> files w
      | Some Dir \<Rightarrow>
          if listdir_of (files w) (abspath (cwd w) c) = []
          then files (snd (open_write (os_path_join c (seed_name seed)) (seed_content seed) w))
          else files w)"
    by (simp add: create_seed_file_for_empty_corpus_def os_listdir_eq and_then_def ok_def s
        split: option.splits node.splits)
qed

lemma create_seed_same_files:
  assumes "files w2 = files w" and "cwd w2 = cwd w" and "umask w2 = umask w"
  shows "fst (create_seed_file_for_empty_corpus seed c w2)
      = fst (create_seed_file_for_empty_corpus seed c w)"
    and "files (snd (create_seed_file_for_empty_corpus seed c w2))
      = files (snd (create_seed_file_for_empty_corpus seed c w))"
  using assms open_write_same_files [of w2 w "os_path_join c (seed_name seed)" "seed_content seed"]
  by (simp_all add: create_seed_outcome split: option.splits node.splits)

lemma create_seed_umask: "umask (snd (create_seed_file_for_empty_corpus seed c w)) = umask w"
  by (auto simp: create_seed_file_for_empty_corpus_def os_listdir_eq and_then_def ok_def
      open_write_frame split: option.splits node.splits)

lemma create_seed_twice:
  "fst (create_seed_file_for_empty_corpus seed c (snd (create_seed_file_for_empty_corpus seed c w)))
     = fst (create_seed_file_for_empty_corpus seed c w)"
  "files (snd (create_seed_file_for_empty_corpus seed c
       (snd (create_seed_file_for_empty_corpus seed c w))))
     = files (snd (create_seed_file_for_empty_corpus seed c w))"
proof -
  let ?d = "abspath (cwd w) c"
  let ?w1 = "snd (create_seed_file_for_empty_corpus seed c w)"
  let ?p = "os_path_join c (seed_name seed)"
  let ?o = "open_write ?p (seed_content seed) w"
  have cw: "cwd ?w1 = cwd w" by (rule create_seed_frame)
  have both: "fst (create_seed_file_for_empty_corpus seed c ?w1)
       = fst (create_seed_file_for_empty_corpus seed c w)
     \<and> files (snd (create_seed_file_for_empty_corpus seed c ?w1)) = files ?w1"
  proof (cases "map_of (files w) ?d = Some Dir \<and> listdir_of (files w) ?d = []")
    case False
    then have same: "files ?w1 = files w"
      by (auto simp: create_seed_outcome split: option.splits node.splits)
    show ?thesis
      using create_seed_same_files [of ?w1 w seed c] same cw create_seed_umask [of seed c w]
      by simp
  next
    case True
    then have f1: "files ?w1 = files (snd ?o)" and r1: "fst (create_seed_file_for_empty_corpus seed c w) = fst ?o"
      by (simp_all add: create_seed_outcome)
    show ?thesis
    proof (cases "fst ?o")
      case (Inl e)
      then have "files (snd ?o) = files w" by (rule open_write_failed)
      with f1 have same: "files ?w1 = files w" by simp
      show ?thesis
        using create_seed_same_files [of ?w1 w seed c] same cw create_seed_umask [of seed c w]
        by simp
    next
      case (Inr u)
      then have ok: "fst ?o = Inr ()" by simp
      have dir: "map_of (files ?w1) ?d = Some Dir"
        using True f1 open_write_keeps_dir [of w ?d ?p "seed_content seed"] by simp
      have um: "umask ?w1 = umask w" by (rule create_seed_umask)
      have again: "fst (open_write ?p (seed_content seed) ?w1) = Inr ()"
        "files (snd (open_write ?p (seed_content seed) ?w1)) = files ?w1"
        using open_write_same_files [of ?w1 "snd ?o" ?p "seed_content seed"]
          open_write_twice [OF ok] f1 cw um
        by (simp_all add: open_write_frame)
      show ?thesis
        using dir again r1 ok
        by (simp add: create_seed_outcome [of seed c ?w1] cw split: if_splits)
    qed
  qed
  from both show "fst (create_seed_file_for_empty_corpus seed c ?w1)
       = fst (create_seed_file_for_empty_corpus seed c w)" by simp
  from both show "files (snd (create_seed_file_for_empty_corpus seed c ?w1)) = files ?w1" by simp
qed

text \<open>
  C8. \<^verbatim>\<open>prepare_fuzz_environment\<close> is idempotent: called a second time on the same input
  corpus, it has the same outcome and leaves the environment table and the files as the first
  call left them; the table after a call is the one before with the six settings made.
\<close>

theorem prepare_fuzz_environment_idempotent:
  "fst (prepare_fuzz_environment seed input_corpus (snd (prepare_fuzz_environment seed input_corpus w)))
     = fst (prepare_fuzz_environment seed input_corpus w)
   \<and> environ (snd (prepare_fuzz_environment seed input_corpus
         (snd (prepare_fuzz_environment seed input_corpus w))))
     = environ (snd (prepare_fuzz_environment seed input_corpus w))
   \<and> files (snd (prepare_fuzz_environment seed input_corpus
         (snd (prepare_fuzz_environment seed input_corpus w))))
     = files (snd (prepare_fuzz_environment seed input_corpus w))
   \<and> environ (snd (prepare_fuzz_environment seed input_corpus w)) = afl_env (environ w)"
  by (simp add: prepare_frame afl_env_idem)
     (simp add: prepare_unfold create_seed_environ_indep create_seed_twice)

section \<open>The files after a successful instrumentation\<close>





lemma abspath_absolute: "is_abs p \<Longrightarrow> abspath d p = abspath d' p"
  by (simp add: abspath_def)

lemma abspath_out_sample [simp]: "abspath d ''/out/sample'' = [''out'', ''sample'']"
  by (simp add: abspath_def is_abs_def components_def slash_def norm_step_def)


lemma abspath_assembler [simp]:
  "abspath d assembler = [''src'', ''fuzzers'', ''aflplusplus_ddisasm'', ''assemble.sh'']"
  by (simp add: abspath_def assembler_def is_abs_def components_def slash_def norm_step_def)













end
